theory Spec2Isabelle
  imports Complex_Main "HOL-Library.Word" "HOL-Library.Sublist"
begin

section \<open>FaskerAI: the chat component of src/src/App.jsx\<close>

text \<open>
  The component keeps five pieces of React state (\<open>messages\<close>, \<open>input\<close>, \<open>loading\<close>,
  \<open>apiKey\<close>, \<open>sidebarOpen\<close>) and has two operations that change the conversation:
  \<open>handleSendMessage\<close> (lines 33-88) and \<open>clearChat\<close> (lines 90-93). Each handler is
  modelled as a function from the component state to the next state and the list of
  HTTP requests it issues. What the handler reads from outside (the clock
  \<open>Date.now()\<close>, the result of \<open>fetch\<close>) is an argument.

  A handler is a closure of the render that created it: the \<open>input\<close>, \<open>loading\<close>,
  \<open>apiKey\<close> and \<open>sidebarOpen\<close> it reads are the values of that render, and stay so
  until the component renders again, while its updates go to the current state.
  \<open>handleSendMessage\<close> and \<open>send_begin\<close> below describe a call made from the render of
  the current state; \<open>send_begin_in_render\<close> and the transition system describe a call
  made from any render.
\<close>

subsection \<open>JavaScript strings\<close>

text \<open>
  A JavaScript string is a sequence of UTF-16 code units. \<open>ascii\<close> embeds the ASCII
  literals of the source.
\<close>

type_synonym jstring = "16 word list"

definition ascii :: "string \<Rightarrow> jstring" where
  "ascii cs = map of_char cs"

text \<open>
  \<open>String.prototype.trim\<close> removes WhiteSpace and LineTerminator code points from both
  ends: TAB, LF, VT, FF, CR, SP, NBSP, the Unicode space separators, LS, PS and the
  byte order mark. All of them are single code units.
\<close>

definition is_js_whitespace :: "16 word \<Rightarrow> bool" where
  "is_js_whitespace c \<longleftrightarrow>
     c = 0x09 \<or> c = 0x0A \<or> c = 0x0B \<or> c = 0x0C \<or> c = 0x0D \<or> c = 0x20 \<or> c = 0xA0 \<or>
     c = 0x1680 \<or> (0x2000 \<le> c \<and> c \<le> 0x200A) \<or> c = 0x2028 \<or> c = 0x2029 \<or>
     c = 0x202F \<or> c = 0x205F \<or> c = 0x3000 \<or> c = 0xFEFF"

definition trim :: "jstring \<Rightarrow> jstring" where
  "trim s = rev (dropWhile is_js_whitespace (rev (dropWhile is_js_whitespace s)))"

text \<open>Decimal rendering of a non-negative integer (the HTTP status in a template literal).\<close>

definition digit :: "nat \<Rightarrow> 16 word" where
  "digit d = 0x30 + of_nat d"

fun show_nat :: "nat \<Rightarrow> jstring" where
  "show_nat n = (if n < 10 then [digit n] else show_nat (n div 10) @ [digit (n mod 10)])"

declare show_nat.simps [simp del]

subsection \<open>Parsed JSON values\<close>

text \<open>
  The value \<open>response.json()\<close> resolves to. An object is the list of its own properties;
  a property read takes the first binding of the name. Numbers are the finite values a
  JSON literal denotes; only whether a number is zero and how it prints is observed.
  \<open>None\<close> of type \<open>json option\<close> is JavaScript's \<open>undefined\<close>.
\<close>

datatype json =
    JNull
  | JBool bool
  | JNum rat
  | JStr jstring
  | JArr "json list"
  | JObj "(jstring \<times> json) list"

type_synonym jsval = "json option"

text \<open>ToBoolean: \<open>undefined\<close>, \<open>null\<close>, \<open>false\<close>, \<open>0\<close> and \<open>""\<close> are falsy.\<close>

fun truthy :: "jsval \<Rightarrow> bool" where
  "truthy None = False"
| "truthy (Some JNull) = False"
| "truthy (Some (JBool b)) = b"
| "truthy (Some (JNum q)) = (q \<noteq> 0)"
| "truthy (Some (JStr s)) = (s \<noteq> [])"
| "truthy (Some (JArr xs)) = True"
| "truthy (Some (JObj kvs)) = True"

text \<open>
  Reading one of the property names the source uses (\<open>candidates\<close>, \<open>content\<close>,
  \<open>parts\<close>, \<open>text\<close>, \<open>error\<close>, \<open>message\<close>) from a value that is neither \<open>null\<close> nor
  \<open>undefined\<close>. None of these names is a built-in property of arrays, strings, numbers
  or booleans, so only an object can have one.
\<close>

fun get_named :: "json \<Rightarrow> jstring \<Rightarrow> jsval" where
  "get_named (JObj kvs) k = map_of kvs k"
| "get_named _ k = None"

text \<open>Reading \<open>[0]\<close>: the first element of an array, the first code unit of a string,
  the property \<open>"0"\<close> of an object.\<close>

fun get_index0 :: "json \<Rightarrow> jsval" where
  "get_index0 (JArr xs) = (case xs of [] \<Rightarrow> None | x # _ \<Rightarrow> Some x)"
| "get_index0 (JStr s) = (case s of [] \<Rightarrow> None | c # _ \<Rightarrow> Some (JStr [c]))"
| "get_index0 (JObj kvs) = map_of kvs (ascii ''0'')"
| "get_index0 _ = None"

text \<open>Optional chaining \<open>v?.p\<close>: \<open>undefined\<close> when \<open>v\<close> is \<open>null\<close> or \<open>undefined\<close>.\<close>

fun opt_chain :: "jsval \<Rightarrow> (json \<Rightarrow> jsval) \<Rightarrow> jsval" where
  "opt_chain None f = None"
| "opt_chain (Some JNull) f = None"
| "opt_chain (Some v) f = f v"

subsection \<open>What the JavaScript engine supplies\<close>

text \<open>
  Three behaviours of the engine are not fixed by the source and are parameters of the
  model: how a number prints (Number::toString), the message of the TypeError raised
  when a property is read from \<open>null\<close>, given the property's name, and the message of
  the TypeError raised when an object cannot be converted to a primitive value.
\<close>

record engine =
  num_to_string :: "rat \<Rightarrow> jstring"
  null_read_msg :: "jstring \<Rightarrow> jstring"
  to_primitive_msg :: jstring

fun join_comma :: "jstring list \<Rightarrow> jstring" where
  "join_comma [] = []"
| "join_comma [s] = s"
| "join_comma (s # ss) = s @ ascii '','' @ join_comma ss"

text \<open>
  ToString, as \<open>new Error(v)\<close> applies it to its argument. \<open>None\<close> is a TypeError:
  a parsed object with an own property \<open>toString\<close> has no callable \<open>toString\<close> (a
  JSON value is never a function) and \<open>valueOf\<close> gives back the object, so the
  conversion to a primitive fails. Any other object prints through
  \<open>Object.prototype.toString\<close>. An array joins the strings of its elements with
  commas, \<open>null\<close> printing as nothing, and fails when an element does.
\<close>

fun to_string :: "engine \<Rightarrow> json \<Rightarrow> jstring option" where
  "to_string e JNull = Some (ascii ''null'')"
| "to_string e (JBool b) = Some (if b then ascii ''true'' else ascii ''false'')"
| "to_string e (JNum q) = Some (num_to_string e q)"
| "to_string e (JStr s) = Some s"
| "to_string e (JArr xs) =
     map_option join_comma
       (those (map (\<lambda>x. case x of JNull \<Rightarrow> Some [] | _ \<Rightarrow> to_string e x) xs))"
| "to_string e (JObj kvs) =
     (case map_of kvs (ascii ''toString'') of
        None \<Rightarrow> Some (ascii ''[object Object]'')
      | Some _ \<Rightarrow> None)"

subsection \<open>Messages and component state\<close>

datatype sender = User | Bot

text \<open>
  A message \<open>{ id, text, sender }\<close>. The field names \<open>id\<close> and \<open>text\<close> are taken in
  Isabelle, hence the prefix. \<open>msg_text\<close> is a JavaScript value: line 72 stores whatever
  truthy value the response holds at the reply path.
\<close>

record message =
  msg_id :: int
  msg_text :: json
  msg_sender :: sender

record state =
  messages :: "message list"
  input :: jstring
  loading :: bool
  apiKey :: jstring
  sidebarOpen :: bool

definition greeting :: message where
  "greeting = \<lparr> msg_id = 1,
       msg_text = JStr (ascii ''Hello! I'm FaskerAI. How can I help you today?''),
       msg_sender = Bot \<rparr>"

text \<open>The \<open>useState\<close> defaults of lines 6-12.\<close>

definition initial_state :: state where
  "initial_state = \<lparr> messages = [greeting], input = [], loading = False,
       apiKey = [], sidebarOpen = False \<rparr>"

text \<open>The effect of lines 16-23: a truthy environment key becomes the credential.\<close>

definition init_api_key :: "jstring \<Rightarrow> state \<Rightarrow> state" where
  "init_api_key envKey s = (if envKey \<noteq> [] then s\<lparr> apiKey := envKey \<rparr> else s)"

subsection \<open>The outbound request and what comes back\<close>

datatype http_method = POST

text \<open>
  The arguments of \<open>fetch\<close> (lines 51-60). \<open>body\<close> is the value handed to
  \<open>JSON.stringify\<close>.
\<close>

record request =
  url :: jstring
  http_method :: http_method
  headers :: "(jstring \<times> jstring) list"
  body :: json

text \<open>
  \<open>response.json()\<close> either resolves to a parsed value or rejects with an error whose
  message the engine chooses. \<open>fetch\<close> either rejects (network failure; the error's
  message is given) or resolves to a response with a status and a body.
\<close>

datatype response_body = NotJson jstring | Json json

datatype fetch_result = Rejected jstring | Response nat response_body

text \<open>\<open>response.ok\<close>: the status is in the range 200-299.\<close>

definition response_ok :: "nat \<Rightarrow> bool" where
  "response_ok status \<longleftrightarrow> 200 \<le> status \<and> status \<le> 299"

definition make_request :: "jstring \<Rightarrow> jstring \<Rightarrow> request" where
  "make_request key inp = \<lparr>
     url = ascii ''https://generativelanguage.googleapis.com/v1beta/models/gemini-2.5-flash:generateContent?key='' @ key,
     http_method = POST,
     headers = [(ascii ''Content-Type'', ascii ''application/json'')],
     body = JObj [(ascii ''contents'',
              JArr [JObj [(ascii ''parts'', JArr [JObj [(ascii ''text'', JStr inp)]])]])] \<rparr>"

subsection \<open>handleSendMessage\<close>

text \<open>
  The async function is split at its \<open>await\<close>: \<open>send_begin\<close> is lines 34-60, up to
  the call of \<open>fetch\<close>; \<open>send_settle\<close> is lines 62-87, what runs once \<open>fetch\<close> has
  settled. \<open>handleSendMessage\<close> is the whole call, with nothing else happening between
  the two halves.
\<close>

definition api_key_error :: jstring where
  "api_key_error = ascii ''Error: API key not configured. Please check your .env file.''"

text \<open>
  Lines 34-60. \<open>now\<close> is the reading of \<open>Date.now()\<close> (line 38 or line 45). The result
  is the next state and the request handed to \<open>fetch\<close>, if any.
\<close>

definition send_begin :: "state \<Rightarrow> int \<Rightarrow> state \<times> request option" where
  "send_begin s now =
     (if trim (input s) = [] \<or> loading s then (s, None)
      else if apiKey s = [] then
        (s\<lparr> messages := messages s @
              [\<lparr> msg_id = now, msg_text = JStr api_key_error, msg_sender = Bot \<rparr>] \<rparr>, None)
      else
        (s\<lparr> messages := messages s @
              [\<lparr> msg_id = now, msg_text = JStr (input s), msg_sender = User \<rparr>],
            input := [], loading := True \<rparr>,
         Some (make_request (apiKey s) (input s))))"

text \<open>
  The same lines for a call made from the render of \<open>r\<close> while the current state is
  \<open>s\<close>: the guards of lines 34 and 36, the message text of line 45 and the request of
  lines 52 and 57 read \<open>r\<close>; the updates of lines 37, 46, 47 and 48 apply to \<open>s\<close>.
\<close>

definition send_begin_in_render :: "state \<Rightarrow> state \<Rightarrow> int \<Rightarrow> state \<times> request option" where
  "send_begin_in_render r s now =
     (if trim (input r) = [] \<or> loading r then (s, None)
      else if apiKey r = [] then
        (s\<lparr> messages := messages s @
              [\<lparr> msg_id = now, msg_text = JStr api_key_error, msg_sender = Bot \<rparr>] \<rparr>, None)
      else
        (s\<lparr> messages := messages s @
              [\<lparr> msg_id = now, msg_text = JStr (input r), msg_sender = User \<rparr>],
            input := [], loading := True \<rparr>,
         Some (make_request (apiKey r) (input r))))"

text \<open>\<open>data.error?.message\<close> (line 65), for \<open>data\<close> other than \<open>null\<close>.\<close>

definition error_message_of :: "json \<Rightarrow> jsval" where
  "error_message_of data =
     opt_chain (get_named data (ascii ''error'')) (\<lambda>v. get_named v (ascii ''message''))"

text \<open>\<open>data.candidates?.[0]?.content?.parts?.[0]?.text\<close> (line 68), for \<open>data\<close> other
  than \<open>null\<close>.\<close>

definition reply_of :: "json \<Rightarrow> jsval" where
  "reply_of data =
     opt_chain (opt_chain (opt_chain (opt_chain (opt_chain
       (get_named data (ascii ''candidates''))
       get_index0)
       (\<lambda>v. get_named v (ascii ''content'')))
       (\<lambda>v. get_named v (ascii ''parts'')))
       get_index0)
       (\<lambda>v. get_named v (ascii ''text''))"

definition status_message :: "nat \<Rightarrow> jstring" where
  "status_message status = ascii ''API request failed with status '' @ show_nat status"

definition invalid_format :: jstring where
  "invalid_format = ascii ''Invalid response format from API''"

text \<open>\<open>a || b\<close>: \<open>a\<close> when it is truthy, otherwise \<open>b\<close>.\<close>

definition js_or :: "jsval \<Rightarrow> jsval \<Rightarrow> jsval" where
  "js_or a b = (if truthy a then a else b)"

text \<open>
  The message of the exception that \<open>throw new Error(v)\<close> raises: the new error's
  message, which is ToString of \<open>v\<close> (empty for \<open>undefined\<close>), or the message of the
  TypeError when ToString fails.
\<close>

definition throw_new_Error :: "engine \<Rightarrow> jsval \<Rightarrow> jstring" where
  "throw_new_Error e v =
     (case v of
        None \<Rightarrow> []
      | Some x \<Rightarrow> (case to_string e x of Some m \<Rightarrow> m | None \<Rightarrow> to_primitive_msg e))"

text \<open>
  The body of the \<open>try\<close> block (lines 51-77), after \<open>fetch\<close> has settled with \<open>res\<close>.
  \<open>Inl m\<close> is an exception with message \<open>m\<close>, thrown by \<open>fetch\<close>, by
  \<open>response.json()\<close>, by a property read from \<open>null\<close> or by one of the two \<open>throw\<close>
  statements; \<open>Inr v\<close> is the reply that line 70 appends.
\<close>

definition try_block :: "engine \<Rightarrow> fetch_result \<Rightarrow> jstring + json" where
  "try_block e res =
     (case res of
        Rejected m \<Rightarrow> Inl m
      | Response status b \<Rightarrow>
          (case b of
             NotJson m \<Rightarrow> Inl m
           | Json data \<Rightarrow>
               if \<not> response_ok status then
                 (if data = JNull then Inl (null_read_msg e (ascii ''error''))
                  else Inl (throw_new_Error e
                         (js_or (error_message_of data) (Some (JStr (status_message status))))))
               else
                 (if data = JNull then Inl (null_read_msg e (ascii ''candidates''))
                  else case reply_of data of
                         None \<Rightarrow> Inl (throw_new_Error e (Some (JStr invalid_format)))
                       | Some botReply \<Rightarrow>
                           if truthy (Some botReply) then Inr botReply
                           else Inl (throw_new_Error e (Some (JStr invalid_format))))))"

definition sorry_prefix :: jstring where
  "sorry_prefix = ascii ''Sorry, I encountered an error: ''"

text \<open>
  Lines 62-87: the \<open>try\<close> block, the \<open>catch\<close> that turns an exception into a bot
  message, and the \<open>finally\<close> that clears \<open>loading\<close>. \<open>now\<close> is the reading of
  \<open>Date.now()\<close> at line 71 or line 81. The state updates are functional
  (\<open>prev => [...prev, m]\<close>), so they apply to the state at the time of settling.
\<close>

definition send_settle :: "engine \<Rightarrow> state \<Rightarrow> fetch_result \<Rightarrow> int \<Rightarrow> state" where
  "send_settle e s res now =
     (let s' = (case try_block e res of
                  Inr botReply \<Rightarrow>
                    s\<lparr> messages := messages s @
                         [\<lparr> msg_id = now + 1, msg_text = botReply, msg_sender = Bot \<rparr>] \<rparr>
                | Inl m \<Rightarrow>
                    s\<lparr> messages := messages s @
                         [\<lparr> msg_id = now + 1, msg_text = JStr (sorry_prefix @ m),
                            msg_sender = Bot \<rparr>] \<rparr>)
      in s'\<lparr> loading := False \<rparr>)"

text \<open>
  One whole call. \<open>now1\<close> and \<open>now2\<close> are the two clock readings, \<open>net\<close> is the
  endpoint: what \<open>fetch\<close> settles with for a request. The result is the final state
  and the requests that were issued.
\<close>

definition handleSendMessage ::
  "engine \<Rightarrow> state \<Rightarrow> int \<Rightarrow> (request \<Rightarrow> fetch_result) \<Rightarrow> int \<Rightarrow> state \<times> request list" where
  "handleSendMessage e s now1 net now2 =
     (case send_begin s now1 of
        (s', None) \<Rightarrow> (s', [])
      | (s', Some req) \<Rightarrow> (send_settle e s' (net req) now2, [req]))"

subsection \<open>clearChat\<close>

text \<open>Lines 90-93. No request is issued.\<close>

definition clearChat :: "state \<Rightarrow> state \<times> request list" where
  "clearChat s = (s\<lparr> messages := [greeting], sidebarOpen := False \<rparr>, [])"

subsection \<open>The component as a transition system\<close>

text \<open>
  The events of the page: the mount effect, typing into the input box (line 214,
  \<open>setInput\<close>), submitting (Enter or the send button), the settling of a request in
  flight, the "New Chat" button, the sidebar toggle (line 160), and a render. The system
  state is the current component state \<open>comp\<close>, the state of the last render
  \<open>rendered\<close>, which is what the handlers read until the next render, and the requests
  in flight.
\<close>

datatype event =
    Mount jstring
  | Type jstring
  | Submit int
  | Settle nat fetch_result int
  | NewChat
  | ToggleSidebar
  | Render

record system =
  comp :: state
  rendered :: state
  in_flight :: "request list"

definition initial_system :: system where
  "initial_system = \<lparr> comp = initial_state, rendered = initial_state, in_flight = [] \<rparr>"

fun step :: "engine \<Rightarrow> system \<Rightarrow> event \<Rightarrow> system" where
  "step e sys (Mount envKey) = sys\<lparr> comp := init_api_key envKey (comp sys) \<rparr>"
| "step e sys (Type typed) = sys\<lparr> comp := (comp sys)\<lparr> input := typed \<rparr> \<rparr>"
| "step e sys (Submit now) =
     (case send_begin_in_render (rendered sys) (comp sys) now of
        (s', None) \<Rightarrow> sys\<lparr> comp := s' \<rparr>
      | (s', Some req) \<Rightarrow> sys\<lparr> comp := s', in_flight := in_flight sys @ [req] \<rparr>)"
| "step e sys (Settle i res now) =
     (if i < length (in_flight sys)
      then sys\<lparr> comp := send_settle e (comp sys) res now,
                in_flight := take i (in_flight sys) @ drop (Suc i) (in_flight sys) \<rparr>
      else sys)"
| "step e sys NewChat = sys\<lparr> comp := fst (clearChat (comp sys)) \<rparr>"
| "step e sys ToggleSidebar =
     sys\<lparr> comp := (comp sys)\<lparr> sidebarOpen := \<not> sidebarOpen (rendered sys) \<rparr> \<rparr>"
| "step e sys Render = sys\<lparr> rendered := comp sys \<rparr>"

definition run :: "engine \<Rightarrow> event list \<Rightarrow> system" where
  "run e evs = foldl (step e) initial_system evs"

text \<open>
  What holds of the system after every sequence of events: \<open>loading\<close> is only ever set
  with a credential, and a credential once rendered is still there.
\<close>

definition system_ok :: "system \<Rightarrow> bool" where
  "system_ok sys \<longleftrightarrow>
     (loading (comp sys) \<longrightarrow> apiKey (comp sys) \<noteq> []) \<and>
     (apiKey (rendered sys) \<noteq> [] \<longrightarrow> apiKey (comp sys) \<noteq> [])"

subsection \<open>Concrete inputs for the examples\<close>

text \<open>
  An engine for the examples: V8's two TypeError messages, and decimal printing of
  natural numbers below \<open>10^21\<close> (no example prints any other number).
\<close>

definition example_engine :: engine where
  "example_engine = \<lparr>
     num_to_string = (\<lambda>q. case quotient_of q of (n, d) \<Rightarrow>
        if d = 1 \<and> 0 \<le> n \<and> n < 10 ^ 21 then show_nat (nat n) else []),
     null_read_msg = (\<lambda>p. ascii ''Cannot read properties of null (reading '' @ [0x27] @ p @
        [0x27] @ ascii '')''),
     to_primitive_msg = ascii ''Cannot convert object to primitive value'' \<rparr>"

text \<open>A body of the shape the endpoint documents, with \<open>reply\<close> at the reply path.\<close>

definition success_body :: "json \<Rightarrow> json" where
  "success_body reply =
     JObj [(ascii ''candidates'',
       JArr [JObj [(ascii ''content'',
         JObj [(ascii ''parts'', JArr [JObj [(ascii ''text'', reply)]])])]])]"

text \<open>The state after mounting with environment key \<open>key\<close> and typing \<open>typed\<close>.\<close>

definition ready_state :: "jstring \<Rightarrow> jstring \<Rightarrow> state" where
  "ready_state key typed = (init_api_key key initial_state)\<lparr> input := typed \<rparr>"

text \<open>An endpoint that settles every request the same way.\<close>

definition mock_endpoint :: "fetch_result \<Rightarrow> request \<Rightarrow> fetch_result" where
  "mock_endpoint res req = res"

definition sender_and_text :: "message \<Rightarrow> sender \<times> json" where
  "sender_and_text m = (msg_sender m, msg_text m)"

section \<open>Properties\<close>

subsection \<open>Auxiliary facts\<close>

lemmas example_defs = ready_state_def init_api_key_def initial_state_def trim_def
  is_js_whitespace_def ascii_def mock_endpoint_def response_ok_def success_body_def
  reply_of_def

lemmas run_defs = run_def initial_system_def send_begin_in_render_def send_settle_def try_block_def
  throw_new_Error_def js_or_def error_message_of_def clearChat_def

lemma send_begin_ignored:
  "trim (input s) = [] \<or> loading s \<Longrightarrow> send_begin s now = (s, None)"
  by (simp add: send_begin_def)

lemma send_begin_no_key:
  "trim (input s) \<noteq> [] \<Longrightarrow> \<not> loading s \<Longrightarrow> apiKey s = [] \<Longrightarrow>
   send_begin s now =
     (s\<lparr> messages := messages s @
          [\<lparr> msg_id = now, msg_text = JStr api_key_error, msg_sender = Bot \<rparr>] \<rparr>, None)"
  by (simp add: send_begin_def)

lemma send_begin_accepted:
  "trim (input s) \<noteq> [] \<Longrightarrow> \<not> loading s \<Longrightarrow> apiKey s \<noteq> [] \<Longrightarrow>
   send_begin s now =
     (s\<lparr> messages := messages s @
          [\<lparr> msg_id = now, msg_text = JStr (input s), msg_sender = User \<rparr>],
        input := [], loading := True \<rparr>,
      Some (make_request (apiKey s) (input s)))"
  by (simp add: send_begin_def)

lemma send_settle_eq:
  "send_settle e s res now =
     s\<lparr> messages := messages s @
          [\<lparr> msg_id = now + 1,
             msg_text = (case try_block e res of Inr v \<Rightarrow> v | Inl m \<Rightarrow> JStr (sorry_prefix @ m)),
             msg_sender = Bot \<rparr>],
        loading := False \<rparr>"
  by (simp add: send_settle_def split: sum.split)

lemma loading_send_settle: "loading (send_settle e s res now) = False"
  by (simp add: send_settle_eq)

lemma apiKey_send_settle: "apiKey (send_settle e s res now) = apiKey s"
  by (simp add: send_settle_eq)

lemma handleSendMessage_accepted:
  "send_begin s now1 = (s', Some req) \<Longrightarrow>
   handleSendMessage e s now1 net now2 = (send_settle e s' (net req) now2, [req])"
  by (simp add: handleSendMessage_def)

lemma ready_state_accepted:
  "send_begin (ready_state (ascii ''k'') (ascii ''hi'')) now =
     ((ready_state (ascii ''k'') (ascii ''hi''))\<lparr>
         messages := messages (ready_state (ascii ''k'') (ascii ''hi'')) @
           [\<lparr> msg_id = now, msg_text = JStr (ascii ''hi''), msg_sender = User \<rparr>],
         input := [], loading := True \<rparr>,
      Some (make_request (ascii ''k'') (ascii ''hi'')))"
  by (simp add: send_begin_def example_defs)

lemma send_begin_in_render_same: "send_begin_in_render s s now = send_begin s now"
  by (simp add: send_begin_in_render_def send_begin_def)

text \<open>The invariant holds initially and every event preserves it.\<close>

lemma initial_system_ok: "system_ok initial_system"
  by (simp add: system_ok_def initial_system_def initial_state_def)

lemma step_system_ok:
  assumes "system_ok sys"
  shows "system_ok (step e sys ev)"
proof (cases ev)
  case (Mount k)
  with assms show ?thesis by (auto simp: system_ok_def init_api_key_def)
next
  case (Type t)
  with assms show ?thesis by (simp add: system_ok_def)
next
  case (Submit now)
  with assms show ?thesis
    by (auto simp: system_ok_def send_begin_in_render_def)
next
  case (Settle i res now)
  with assms show ?thesis
    by (auto simp: system_ok_def loading_send_settle apiKey_send_settle)
next
  case NewChat
  with assms show ?thesis by (simp add: system_ok_def clearChat_def)
next
  case ToggleSidebar
  with assms show ?thesis by (simp add: system_ok_def)
next
  case Render
  with assms show ?thesis by (simp add: system_ok_def)
qed

lemma run_snoc: "run e (evs @ [ev]) = step e (run e evs) ev"
  by (simp add: run_def)

lemma run_system_ok: "system_ok (run e evs)"
proof (induction evs rule: rev_induct)
  case Nil
  show ?case by (simp add: run_def initial_system_ok)
next
  case (snoc ev evs)
  then show ?case by (simp add: run_snoc step_system_ok)
qed

subsection \<open>Claims about a submission\<close>

text \<open>
  C1 (as amended). For every input that is non-empty after trimming, with a credential
  configured and \<open>loading\<close> false, when the endpoint answers with a success status and
  a body holding a non-empty reply string \<open>R\<close> at
  \<open>candidates[0].content.parts[0].text\<close>, the call appends exactly two messages, the
  user's with the raw input and then the bot's with \<open>R\<close>; it clears the input and leaves
  \<open>loading\<close> false, and issues the one request.
\<close>

theorem C1_reply_appended:
  assumes "trim (input s) \<noteq> []" and "apiKey s \<noteq> []" and "\<not> loading s"
    and "net (make_request (apiKey s) (input s)) = Response status (Json data)"
    and "response_ok status"
    and "reply_of data = Some (JStr R)" and "R \<noteq> []"
  shows "handleSendMessage e s now1 net now2 =
     (s\<lparr> messages := messages s @
          [\<lparr> msg_id = now1, msg_text = JStr (input s), msg_sender = User \<rparr>,
           \<lparr> msg_id = now2 + 1, msg_text = JStr R, msg_sender = Bot \<rparr>],
        input := [], loading := False \<rparr>,
      [make_request (apiKey s) (input s)])"
proof -
  have "data \<noteq> JNull"
    using assms(6) by (auto simp: reply_of_def)
  then have "try_block e (net (make_request (apiKey s) (input s))) = Inr (JStr R)"
    using assms(4-7) by (simp add: try_block_def)
  then show ?thesis
    using assms(1-3) by (simp add: handleSendMessage_def send_begin_accepted send_settle_def)
qed

text \<open>The example of the specification: "2+2?" answered by "4" on the seeded state.\<close>

theorem C1_witness:
  "handleSendMessage example_engine (ready_state (ascii ''k'') (ascii ''2+2?'')) 1762000000000
      (mock_endpoint (Response 200 (Json (success_body (JStr (ascii ''4'')))))) 1762000000500 =
     (\<lparr> messages = [greeting,
          \<lparr> msg_id = 1762000000000, msg_text = JStr (ascii ''2+2?''), msg_sender = User \<rparr>,
          \<lparr> msg_id = 1762000000501, msg_text = JStr (ascii ''4''), msg_sender = Bot \<rparr>],
        input = [], loading = False, apiKey = ascii ''k'', sidebarOpen = False \<rparr>,
      [make_request (ascii ''k'') (ascii ''2+2?'')])"
  using C1_reply_appended [of "ready_state (ascii ''k'') (ascii ''2+2?'')"
      "mock_endpoint (Response 200 (Json (success_body (JStr (ascii ''4'')))))"
      200 "success_body (JStr (ascii ''4''))" "ascii ''4''" example_engine
      1762000000000 1762000000500]
  by (simp add: example_defs)

text \<open>
  C1 as stated fails for the empty reply: the string \<open>""\<close> at the reply path is falsy, so
  line 68 takes the \<open>else\<close> branch and the bot message is the format error, not \<open>R\<close>.
\<close>

theorem C1_counterexample:
  "reply_of (success_body (JStr [])) = Some (JStr []) \<and>
   map sender_and_text
     (messages (fst (handleSendMessage example_engine
        (ready_state (ascii ''k'') (ascii ''2+2?'')) 1762000000000
        (mock_endpoint (Response 200 (Json (success_body (JStr []))))) 1762000000500)))
   = [(Bot, msg_text greeting), (User, JStr (ascii ''2+2?'')),
      (Bot, JStr (ascii ''Sorry, I encountered an error: Invalid response format from API''))]"
  by (simp add: handleSendMessage_def send_begin_def send_settle_def try_block_def
      throw_new_Error_def sorry_prefix_def invalid_format_def sender_and_text_def greeting_def
      example_defs)


text \<open>
  C3. In every state the component can reach, if the input is non-empty after trimming and
  no credential is configured, the call appends exactly one bot message, the
  missing-key error, and issues no request. (Without a credential no request was ever
  accepted, so \<open>loading\<close> is false in such a state.)
\<close>

theorem C3_missing_credential:
  assumes "trim (input (comp (run e evs))) \<noteq> []" and "apiKey (comp (run e evs)) = []"
  shows "handleSendMessage e (comp (run e evs)) now1 net now2 =
     ((comp (run e evs))\<lparr> messages := messages (comp (run e evs)) @
          [\<lparr> msg_id = now1, msg_text = JStr api_key_error, msg_sender = Bot \<rparr>] \<rparr>, [])"
proof -
  have "\<not> loading (comp (run e evs))"
    using run_system_ok [of e evs] assms(2) by (auto simp: system_ok_def)
  then show ?thesis
    using assms by (simp add: handleSendMessage_def send_begin_no_key)
qed

theorem C3_witness:
  "handleSendMessage example_engine (comp (run example_engine [Type (ascii ''hi'')]))
      1762000000000 (mock_endpoint (Rejected (ascii ''Failed to fetch''))) 1762000000500 =
     (\<lparr> messages = [greeting,
          \<lparr> msg_id = 1762000000000,
            msg_text = JStr (ascii ''Error: API key not configured. Please check your .env file.''),
            msg_sender = Bot \<rparr>],
        input = ascii ''hi'', loading = False, apiKey = [], sidebarOpen = False \<rparr>, [])"
  using C3_missing_credential [of example_engine "[Type (ascii ''hi'')]" 1762000000000
      "mock_endpoint (Rejected (ascii ''Failed to fetch''))" 1762000000500]
  by (simp add: run_def initial_system_def api_key_error_def example_defs)

text \<open>
  C4 (as amended). A call made while \<open>loading\<close> is false ends with \<open>loading\<close>
  false. For an accepted submission, whatever \<open>fetch\<close> settles with, the call ends in
  the state after the user's message with exactly one bot message appended and
  \<open>loading\<close> false, and each of these failures becomes a bot message that reads
  "Sorry, I encountered an error: " followed by a reason: a rejected \<open>fetch\<close> and a
  body that is not JSON (the reason is the error's message), a non-success status, a
  success body \<open>null\<close>, and a success body with no truthy value at the reply path (the
  reason is "Invalid response format from API"). The call has a final state for every
  input: every exception of the \<open>try\<close> block is consumed by the \<open>catch\<close>, and nothing
  outside the \<open>try\<close> block can throw.
\<close>

theorem C4_always_settles:
  "(\<not> loading s \<longrightarrow> \<not> loading (fst (handleSendMessage e s now1 net now2))) \<and>
   (send_begin s now1 = (s', Some req) \<longrightarrow>
      (\<exists>t. fst (handleSendMessage e s now1 net now2) =
          s'\<lparr> messages := messages s' @
               [\<lparr> msg_id = now2 + 1, msg_text = t, msg_sender = Bot \<rparr>],
             loading := False \<rparr>) \<and>
      (net req = Rejected m \<or> net req = Response status (NotJson m) \<longrightarrow>
         fst (handleSendMessage e s now1 net now2) =
           s'\<lparr> messages := messages s' @
               [\<lparr> msg_id = now2 + 1,
                  msg_text = JStr (ascii ''Sorry, I encountered an error: '' @ m),
                  msg_sender = Bot \<rparr>],
             loading := False \<rparr>) \<and>
      (net req = Response status (Json data) \<and> \<not> response_ok status \<longrightarrow>
         (\<exists>reason. fst (handleSendMessage e s now1 net now2) =
           s'\<lparr> messages := messages s' @
               [\<lparr> msg_id = now2 + 1,
                  msg_text = JStr (ascii ''Sorry, I encountered an error: '' @ reason),
                  msg_sender = Bot \<rparr>],
             loading := False \<rparr>)) \<and>
      (net req = Response status (Json JNull) \<and> response_ok status \<longrightarrow>
         fst (handleSendMessage e s now1 net now2) =
           s'\<lparr> messages := messages s' @
               [\<lparr> msg_id = now2 + 1,
                  msg_text = JStr (ascii ''Sorry, I encountered an error: '' @ null_read_msg e (ascii ''candidates'')),
                  msg_sender = Bot \<rparr>],
             loading := False \<rparr>) \<and>
      (net req = Response status (Json data) \<and> response_ok status \<and> data \<noteq> JNull \<and>
       \<not> truthy (reply_of data) \<longrightarrow>
         fst (handleSendMessage e s now1 net now2) =
           s'\<lparr> messages := messages s' @
               [\<lparr> msg_id = now2 + 1,
                  msg_text = JStr (ascii ''Sorry, I encountered an error: '' @ ascii ''Invalid response format from API''),
                  msg_sender = Bot \<rparr>],
             loading := False \<rparr>))"
proof (intro conjI impI)
  assume "\<not> loading s"
  then show "\<not> loading (fst (handleSendMessage e s now1 net now2))"
    by (simp add: handleSendMessage_def send_begin_def loading_send_settle)
next
  assume "send_begin s now1 = (s', Some req)"
  then show "\<exists>t. fst (handleSendMessage e s now1 net now2) =
          s'\<lparr> messages := messages s' @
               [\<lparr> msg_id = now2 + 1, msg_text = t, msg_sender = Bot \<rparr>],
             loading := False \<rparr>"
    by (simp add: handleSendMessage_accepted send_settle_eq) (rule exI, rule refl)
next
  assume "send_begin s now1 = (s', Some req)"
    and "net req = Rejected m \<or> net req = Response status (NotJson m)"
  then show "fst (handleSendMessage e s now1 net now2) =
           s'\<lparr> messages := messages s' @
               [\<lparr> msg_id = now2 + 1,
                  msg_text = JStr (ascii ''Sorry, I encountered an error: '' @ m),
                  msg_sender = Bot \<rparr>],
             loading := False \<rparr>"
    by (auto simp: handleSendMessage_accepted send_settle_eq try_block_def sorry_prefix_def)
next
  assume "send_begin s now1 = (s', Some req)"
    and "net req = Response status (Json data) \<and> \<not> response_ok status"
  then have "fst (handleSendMessage e s now1 net now2) =
           s'\<lparr> messages := messages s' @
               [\<lparr> msg_id = now2 + 1,
                  msg_text = JStr (ascii ''Sorry, I encountered an error: '' @
                    (if data = JNull then null_read_msg e (ascii ''error'')
                     else throw_new_Error e (js_or (error_message_of data)
                            (Some (JStr (status_message status)))))),
                  msg_sender = Bot \<rparr>],
             loading := False \<rparr>"
    by (simp add: handleSendMessage_accepted send_settle_eq try_block_def sorry_prefix_def)
  then show "\<exists>reason. fst (handleSendMessage e s now1 net now2) =
           s'\<lparr> messages := messages s' @
               [\<lparr> msg_id = now2 + 1,
                  msg_text = JStr (ascii ''Sorry, I encountered an error: '' @ reason),
                  msg_sender = Bot \<rparr>],
             loading := False \<rparr>"
    by (rule exI)
next
  assume "send_begin s now1 = (s', Some req)"
    and "net req = Response status (Json JNull) \<and> response_ok status"
  then show "fst (handleSendMessage e s now1 net now2) =
           s'\<lparr> messages := messages s' @
               [\<lparr> msg_id = now2 + 1,
                  msg_text = JStr (ascii ''Sorry, I encountered an error: '' @ null_read_msg e (ascii ''candidates'')),
                  msg_sender = Bot \<rparr>],
             loading := False \<rparr>"
    by (simp add: handleSendMessage_accepted send_settle_eq try_block_def sorry_prefix_def)
next
  assume "send_begin s now1 = (s', Some req)"
    and "net req = Response status (Json data) \<and> response_ok status \<and> data \<noteq> JNull \<and>
       \<not> truthy (reply_of data)"
  then show "fst (handleSendMessage e s now1 net now2) =
           s'\<lparr> messages := messages s' @
               [\<lparr> msg_id = now2 + 1,
                  msg_text = JStr (ascii ''Sorry, I encountered an error: '' @ ascii ''Invalid response format from API''),
                  msg_sender = Bot \<rparr>],
             loading := False \<rparr>"
    by (cases "reply_of data")
       (simp_all add: handleSendMessage_accepted send_settle_eq try_block_def
          throw_new_Error_def sorry_prefix_def invalid_format_def)
qed

text \<open>
  A rejected \<open>fetch\<close>, an HTML error page with status 502, a 404 with an empty JSON
  object, and a 200 with an empty JSON object.
\<close>

theorem C4_witness:
  "\<not> loading (ready_state (ascii ''k'') (ascii ''hi'')) \<and>
   fst (handleSendMessage example_engine (ready_state (ascii ''k'') (ascii ''hi''))
      1762000000000 (mock_endpoint (Rejected (ascii ''Failed to fetch''))) 1762000000500) =
     \<lparr> messages = [greeting,
          \<lparr> msg_id = 1762000000000, msg_text = JStr (ascii ''hi''), msg_sender = User \<rparr>,
          \<lparr> msg_id = 1762000000501,
            msg_text = JStr (ascii ''Sorry, I encountered an error: Failed to fetch''),
            msg_sender = Bot \<rparr>],
        input = [], loading = False, apiKey = ascii ''k'', sidebarOpen = False \<rparr> \<and>
   map sender_and_text (messages (fst (handleSendMessage example_engine
      (ready_state (ascii ''k'') (ascii ''hi'')) 1762000000000
      (mock_endpoint (Response 502 (NotJson (ascii ''Unexpected token < in JSON at position 0''))))
      1762000000500))) =
     [(Bot, msg_text greeting), (User, JStr (ascii ''hi'')),
      (Bot, JStr (ascii ''Sorry, I encountered an error: Unexpected token < in JSON at position 0''))] \<and>
   map sender_and_text (messages (fst (handleSendMessage example_engine
      (ready_state (ascii ''k'') (ascii ''hi'')) 1762000000000
      (mock_endpoint (Response 200 (Json (JObj [])))) 1762000000500))) =
     [(Bot, msg_text greeting), (User, JStr (ascii ''hi'')),
      (Bot, JStr (ascii ''Sorry, I encountered an error: Invalid response format from API''))] \<and>
   take 31 (case msg_text (last (messages (fst (handleSendMessage example_engine
      (ready_state (ascii ''k'') (ascii ''hi'')) 1762000000000
      (mock_endpoint (Response 404 (Json (JObj [])))) 1762000000500)))) of
        JStr t \<Rightarrow> t | _ \<Rightarrow> []) = ascii ''Sorry, I encountered an error: ''"
proof -
  let ?s = "ready_state (ascii ''k'') (ascii ''hi'')"
  let ?s' = "?s\<lparr> messages := messages ?s @
       [\<lparr> msg_id = 1762000000000, msg_text = JStr (ascii ''hi''), msg_sender = User \<rparr>],
     input := [], loading := True \<rparr>"
  let ?req = "make_request (ascii ''k'') (ascii ''hi'')"
  note acc = ready_state_accepted [of 1762000000000]
  have r: "reply_of (JObj []) = None"
    by (simp add: reply_of_def)
  from C4_always_settles [of ?s example_engine 1762000000000
      "mock_endpoint (Rejected (ascii ''Failed to fetch''))" 1762000000500 ?s' ?req
      "ascii ''Failed to fetch''" 0 JNull] acc
  have a: "\<not> loading ?s \<and>
      fst (handleSendMessage example_engine ?s 1762000000000
        (mock_endpoint (Rejected (ascii ''Failed to fetch''))) 1762000000500) =
      ?s'\<lparr> messages := messages ?s' @
           [\<lparr> msg_id = 1762000000500 + 1,
              msg_text = JStr (ascii ''Sorry, I encountered an error: '' @ ascii ''Failed to fetch''),
              msg_sender = Bot \<rparr>],
         loading := False \<rparr>"
    by (simp add: mock_endpoint_def ready_state_def init_api_key_def initial_state_def)
  from C4_always_settles [of ?s example_engine 1762000000000
      "mock_endpoint (Response 502 (NotJson (ascii ''Unexpected token < in JSON at position 0'')))"
      1762000000500 ?s' ?req "ascii ''Unexpected token < in JSON at position 0''" 502 JNull] acc
  have b: "fst (handleSendMessage example_engine ?s 1762000000000
        (mock_endpoint (Response 502 (NotJson (ascii ''Unexpected token < in JSON at position 0''))))
        1762000000500) =
      ?s'\<lparr> messages := messages ?s' @
           [\<lparr> msg_id = 1762000000500 + 1,
              msg_text = JStr (ascii ''Sorry, I encountered an error: '' @
                           ascii ''Unexpected token < in JSON at position 0''),
              msg_sender = Bot \<rparr>],
         loading := False \<rparr>"
    by (simp add: mock_endpoint_def)
  from C4_always_settles [of ?s example_engine 1762000000000
      "mock_endpoint (Response 200 (Json (JObj [])))" 1762000000500 ?s' ?req "[]" 200 "JObj []"]
    acc r
  have c: "fst (handleSendMessage example_engine ?s 1762000000000
        (mock_endpoint (Response 200 (Json (JObj [])))) 1762000000500) =
      ?s'\<lparr> messages := messages ?s' @
           [\<lparr> msg_id = 1762000000500 + 1,
              msg_text = JStr (ascii ''Sorry, I encountered an error: '' @
                           ascii ''Invalid response format from API''),
              msg_sender = Bot \<rparr>],
         loading := False \<rparr>"
    by (simp add: mock_endpoint_def response_ok_def)
  from C4_always_settles [of ?s example_engine 1762000000000
      "mock_endpoint (Response 404 (Json (JObj [])))" 1762000000500 ?s' ?req "[]" 404 "JObj []"]
    acc
  obtain reason where d: "fst (handleSendMessage example_engine ?s 1762000000000
        (mock_endpoint (Response 404 (Json (JObj [])))) 1762000000500) =
      ?s'\<lparr> messages := messages ?s' @
           [\<lparr> msg_id = 1762000000500 + 1,
              msg_text = JStr (ascii ''Sorry, I encountered an error: '' @ reason),
              msg_sender = Bot \<rparr>],
         loading := False \<rparr>"
    by (auto simp: mock_endpoint_def response_ok_def)
  show ?thesis
    unfolding a [THEN conjunct2] b c d
    using a [THEN conjunct1]
    by (simp add: sender_and_text_def ready_state_def init_api_key_def initial_state_def
        greeting_def ascii_def)
qed

text \<open>
  C4 as stated fails for a malformed success body that holds a truthy value other than a
  string at the reply path: the number \<open>5\<close> passes the test of line 68 and line 70
  appends it as the bot's reply, so this failure is not turned into an error message.
\<close>

theorem C4_counterexample:
  "reply_of (success_body (JNum 5)) = Some (JNum 5) \<and>
   fst (handleSendMessage example_engine (ready_state (ascii ''k'') (ascii ''2+2?''))
      1762000000000 (mock_endpoint (Response 200 (Json (success_body (JNum 5)))))
      1762000000500) =
     \<lparr> messages = [greeting,
          \<lparr> msg_id = 1762000000000, msg_text = JStr (ascii ''2+2?''), msg_sender = User \<rparr>,
          \<lparr> msg_id = 1762000000501, msg_text = JNum 5, msg_sender = Bot \<rparr>],
        input = [], loading = False, apiKey = ascii ''k'', sidebarOpen = False \<rparr>"
  by (simp add: handleSendMessage_def send_begin_def send_settle_def try_block_def
      example_defs)

subsection \<open>Claims about the reset\<close>

text \<open>
  C5. Whatever the conversation was, \<open>clearChat\<close> leaves exactly the seeded greeting as
  the message list and closes the sidebar; input, \<open>loading\<close> and credential are as
  before, and no request is issued.
\<close>

theorem C5_clearChat:
  "clearChat s =
     (\<lparr> messages = [\<lparr> msg_id = 1,
            msg_text = JStr (ascii ''Hello! I'm FaskerAI. How can I help you today?''),
            msg_sender = Bot \<rparr>],
        input = input s, loading = loading s, apiKey = apiKey s, sidebarOpen = False \<rparr>, [])"
  by (simp add: clearChat_def greeting_def)

subsection \<open>Claims about failures\<close>

text \<open>
  C6 (as amended). For an accepted submission answered with a non-success status and a body
  that parses as a JSON value other than \<open>null\<close>: when \<open>body.error?.message\<close> is
  truthy and has a string form (a non-empty string is its own string form; a number, a
  boolean, an array and an object print through ToString), the appended bot message
  reads "Sorry, I encountered an error: " followed by that string; when it is absent or
  falsy, the message reads "Sorry, I encountered an error: API request failed with
  status " followed by the status code.
\<close>

theorem C6_status_error:
  assumes "send_begin s now1 = (s', Some req)"
    and "net req = Response status (Json data)"
    and "\<not> response_ok status" and "data \<noteq> JNull"
  shows "(error_message_of data = Some (JStr M) \<and> M \<noteq> [] \<longrightarrow>
            fst (handleSendMessage e s now1 net now2) =
              s'\<lparr> messages := messages s' @
                   [\<lparr> msg_id = now2 + 1,
                      msg_text = JStr (ascii ''Sorry, I encountered an error: '' @ M),
                      msg_sender = Bot \<rparr>],
                 loading := False \<rparr>) \<and>
         (error_message_of data = Some v \<and> truthy (Some v) \<and> to_string e v = Some str \<longrightarrow>
            fst (handleSendMessage e s now1 net now2) =
              s'\<lparr> messages := messages s' @
                   [\<lparr> msg_id = now2 + 1,
                      msg_text = JStr (ascii ''Sorry, I encountered an error: '' @ str),
                      msg_sender = Bot \<rparr>],
                 loading := False \<rparr>) \<and>
         (\<not> truthy (error_message_of data) \<longrightarrow>
            fst (handleSendMessage e s now1 net now2) =
              s'\<lparr> messages := messages s' @
                   [\<lparr> msg_id = now2 + 1,
                      msg_text = JStr (ascii ''Sorry, I encountered an error: '' @ ascii ''API request failed with status '' @ show_nat status),
                      msg_sender = Bot \<rparr>],
                 loading := False \<rparr>)"
  using assms
  by (simp add: handleSendMessage_accepted send_settle_eq try_block_def js_or_def
      throw_new_Error_def status_message_def sorry_prefix_def)

text \<open>
  The example of the specification, status 500 with
  \<open>{error: {message: "quota exceeded"}}\<close>; a 429 with the number 42 as message; and
  a 404 whose body has no \<open>error\<close>.
\<close>

theorem C6_witness:
  "map sender_and_text (messages (fst (handleSendMessage example_engine
      (ready_state (ascii ''k'') (ascii ''hi'')) 1762000000000
      (mock_endpoint (Response 500 (Json (JObj [(ascii ''error'',
          JObj [(ascii ''message'', JStr (ascii ''quota exceeded''))])]))))
      1762000000500))) =
     [(Bot, msg_text greeting), (User, JStr (ascii ''hi'')),
      (Bot, JStr (ascii ''Sorry, I encountered an error: quota exceeded''))] \<and>
   sublist (ascii ''quota exceeded'') (ascii ''Sorry, I encountered an error: quota exceeded'') \<and>
   map sender_and_text (messages (fst (handleSendMessage example_engine
      (ready_state (ascii ''k'') (ascii ''hi'')) 1762000000000
      (mock_endpoint (Response 429 (Json (JObj [(ascii ''error'',
          JObj [(ascii ''message'', JNum 42)])]))))
      1762000000500))) =
     [(Bot, msg_text greeting), (User, JStr (ascii ''hi'')),
      (Bot, JStr (ascii ''Sorry, I encountered an error: 42''))] \<and>
   map sender_and_text (messages (fst (handleSendMessage example_engine
      (ready_state (ascii ''k'') (ascii ''hi'')) 1762000000000
      (mock_endpoint (Response 404 (Json (JObj [])))) 1762000000500))) =
     [(Bot, msg_text greeting), (User, JStr (ascii ''hi'')),
      (Bot, JStr (ascii ''Sorry, I encountered an error: API request failed with status 404''))]"
proof -
  let ?quota = "JObj [(ascii ''error'', JObj [(ascii ''message'', JStr (ascii ''quota exceeded''))])]"
  let ?num = "JObj [(ascii ''error'', JObj [(ascii ''message'', JNum 42)])]"
  note acc = ready_state_accepted [of 1762000000000]
  have q: "error_message_of ?quota = Some (JStr (ascii ''quota exceeded''))"
    by (simp add: error_message_of_def ascii_def)
  have m: "error_message_of ?num = Some (JNum 42)"
    by (simp add: error_message_of_def ascii_def)
  have p: "to_string example_engine (JNum 42) = Some (ascii ''42'')"
    by (simp add: example_engine_def quotient_of_int [of 42, simplified] show_nat.simps
        digit_def ascii_def)
  have n: "\<not> truthy (error_message_of (JObj []))"
    by (simp add: error_message_of_def)
  have sub: "sublist (ascii ''quota exceeded'')
      (ascii ''Sorry, I encountered an error: quota exceeded'')"
    by code_simp
  have s404: "show_nat 404 = ascii ''404''"
    by (simp add: show_nat.simps digit_def ascii_def)
  from C6_status_error [OF acc, where net = "mock_endpoint (Response 500 (Json ?quota))"
      and status = 500 and data = ?quota and M = "ascii ''quota exceeded''"
      and v = "JStr (ascii ''quota exceeded'')" and str = "ascii ''quota exceeded''"
      and e = example_engine and ?now2.0 = 1762000000500]
    C6_status_error [OF acc, where net = "mock_endpoint (Response 429 (Json ?num))"
      and status = 429 and data = ?num and M = "[]" and v = "JNum 42"
      and str = "ascii ''42''" and e = example_engine and ?now2.0 = 1762000000500]
    C6_status_error [OF acc, where net = "mock_endpoint (Response 404 (Json (JObj [])))"
      and status = 404 and data = "JObj []" and M = "[]" and v = JNull and str = "[]"
      and e = example_engine and ?now2.0 = 1762000000500]
    q m p n sub s404
  show ?thesis
    by (simp add: mock_endpoint_def response_ok_def sender_and_text_def
        ready_state_def init_api_key_def initial_state_def greeting_def ascii_def)
qed

text \<open>
  C6 as stated fails in two ways. When the body of a non-success response is not JSON (an
  HTML error page of a gateway, say), \<open>response.json()\<close> at line 62 rejects before
  line 64 looks at the status, so the bot message carries the parser's message and not
  the status code. When the body's error message is an object with a property
  \<open>toString\<close>, line 65's \<open>new Error\<close> cannot convert it to a string, and the bot
  message carries the engine's TypeError message, neither the body's message nor the
  status code.
\<close>

theorem C6_counterexample:
  "map sender_and_text (messages (fst (handleSendMessage example_engine
      (ready_state (ascii ''k'') (ascii ''hi'')) 1762000000000
      (mock_endpoint (Response 502 (NotJson (ascii ''Unexpected token < in JSON at position 0''))))
      1762000000500))) =
     [(Bot, msg_text greeting), (User, JStr (ascii ''hi'')),
      (Bot, JStr (ascii ''Sorry, I encountered an error: Unexpected token < in JSON at position 0''))] \<and>
   \<not> sublist (ascii ''502'')
       (ascii ''Sorry, I encountered an error: Unexpected token < in JSON at position 0'') \<and>
   map sender_and_text (messages (fst (handleSendMessage example_engine
      (ready_state (ascii ''k'') (ascii ''hi'')) 1762000000000
      (mock_endpoint (Response 500 (Json (JObj [(ascii ''error'',
          JObj [(ascii ''message'', JObj [(ascii ''toString'', JNum 1)])])]))))
      1762000000500))) =
     [(Bot, msg_text greeting), (User, JStr (ascii ''hi'')),
      (Bot, JStr (ascii ''Sorry, I encountered an error: Cannot convert object to primitive value''))] \<and>
   \<not> sublist (ascii ''500'')
       (ascii ''Sorry, I encountered an error: Cannot convert object to primitive value'')"
proof -
  have "\<not> sublist (ascii ''502'')
       (ascii ''Sorry, I encountered an error: Unexpected token < in JSON at position 0'')"
    and "\<not> sublist (ascii ''500'')
       (ascii ''Sorry, I encountered an error: Cannot convert object to primitive value'')"
    by code_simp+
  then show ?thesis
    by (simp add: handleSendMessage_def send_begin_def send_settle_def try_block_def
        sender_and_text_def sorry_prefix_def greeting_def error_message_of_def js_or_def
        throw_new_Error_def example_engine_def example_defs)
qed

text \<open>
  C7 (as amended). For an accepted submission answered with a success status and a body
  that parses as a JSON value other than \<open>null\<close> and holds no truthy value at
  \<open>candidates[0].content.parts[0].text\<close> (nothing, \<open>null\<close>, \<open>false\<close>, \<open>0\<close> or \<open>""\<close>),
  the appended bot message reads
  "Sorry, I encountered an error: Invalid response format from API".
\<close>

theorem C7_invalid_format:
  assumes "send_begin s now1 = (s', Some req)"
    and "net req = Response status (Json data)"
    and "response_ok status" and "data \<noteq> JNull"
    and "\<not> truthy (reply_of data)"
  shows "fst (handleSendMessage e s now1 net now2) =
     s'\<lparr> messages := messages s' @
          [\<lparr> msg_id = now2 + 1,
             msg_text = JStr (ascii ''Sorry, I encountered an error: Invalid response format from API''),
             msg_sender = Bot \<rparr>],
        loading := False \<rparr>"
  using assms
  by (cases "reply_of data")
     (simp_all add: handleSendMessage_accepted send_settle_eq try_block_def throw_new_Error_def
        sorry_prefix_def invalid_format_def ascii_def)

text \<open>A success body with an empty \<open>candidates\<close> array.\<close>

theorem C7_witness:
  "map sender_and_text (messages (fst (handleSendMessage example_engine
      (ready_state (ascii ''k'') (ascii ''hi'')) 1762000000000
      (mock_endpoint (Response 200 (Json (JObj [(ascii ''candidates'', JArr [])]))))
      1762000000500))) =
     [(Bot, msg_text greeting), (User, JStr (ascii ''hi'')),
      (Bot, JStr (ascii ''Sorry, I encountered an error: Invalid response format from API''))]"
proof -
  let ?b = "JObj [(ascii ''candidates'', JArr [])]"
  note acc = ready_state_accepted [of 1762000000000]
  have n: "\<not> truthy (reply_of ?b)"
    by (simp add: reply_of_def ascii_def)
  from C7_invalid_format [OF acc, of "mock_endpoint (Response 200 (Json ?b))" 200 ?b
      example_engine 1762000000500] n
  show ?thesis
    by (simp add: mock_endpoint_def response_ok_def sender_and_text_def
        ready_state_def init_api_key_def initial_state_def greeting_def ascii_def)
qed

text \<open>
  C7 as stated fails on two success bodies without a reply string. A number at the reply
  path is truthy, so line 70 appends it as the reply. A body that is not JSON (an empty
  body here) makes \<open>response.json()\<close> reject, and the bot message carries the parser's
  message instead of the format error.
\<close>

theorem C7_counterexample:
  "reply_of (success_body (JNum 5)) = Some (JNum 5) \<and>
   map sender_and_text (messages (fst (handleSendMessage example_engine
      (ready_state (ascii ''k'') (ascii ''hi'')) 1762000000000
      (mock_endpoint (Response 200 (Json (success_body (JNum 5))))) 1762000000500))) =
     [(Bot, msg_text greeting), (User, JStr (ascii ''hi'')), (Bot, JNum 5)] \<and>
   map sender_and_text (messages (fst (handleSendMessage example_engine
      (ready_state (ascii ''k'') (ascii ''hi'')) 1762000000000
      (mock_endpoint (Response 200 (NotJson (ascii ''Unexpected end of JSON input''))))
      1762000000500))) =
     [(Bot, msg_text greeting), (User, JStr (ascii ''hi'')),
      (Bot, JStr (ascii ''Sorry, I encountered an error: Unexpected end of JSON input''))]"
  by (simp add: handleSendMessage_def send_begin_def send_settle_def try_block_def
      sender_and_text_def sorry_prefix_def greeting_def example_defs)

subsection \<open>Claims about the request, the ids and the frame\<close>

text \<open>
  C8. An accepted submission (input non-empty after trimming, credential present,
  \<open>loading\<close> false) issues exactly one request: a POST to the fixed endpoint with the
  credential as the \<open>key\<close> query parameter and the body
  \<open>{contents: [{parts: [{text: input}]}]}\<close> holding the raw input and nothing of the
  conversation.
\<close>

theorem C8_one_request:
  assumes "trim (input s) \<noteq> []" and "apiKey s \<noteq> []" and "\<not> loading s"
  shows "snd (handleSendMessage e s now1 net now2) =
     [\<lparr> url = ascii ''https://generativelanguage.googleapis.com/v1beta/models/gemini-2.5-flash:generateContent?key='' @ apiKey s,
        http_method = POST,
        headers = [(ascii ''Content-Type'', ascii ''application/json'')],
        body = JObj [(ascii ''contents'',
                 JArr [JObj [(ascii ''parts'', JArr [JObj [(ascii ''text'', JStr (input s))]])]])] \<rparr>]"
  using assms by (simp add: handleSendMessage_def send_begin_accepted make_request_def)

theorem C8_witness:
  "snd (handleSendMessage example_engine (ready_state (ascii ''k'') (ascii '' hi '')) 1762000000000
      (mock_endpoint (Rejected (ascii ''Failed to fetch''))) 1762000000500) =
     [\<lparr> url = ascii ''https://generativelanguage.googleapis.com/v1beta/models/gemini-2.5-flash:generateContent?key=k'',
        http_method = POST,
        headers = [(ascii ''Content-Type'', ascii ''application/json'')],
        body = JObj [(ascii ''contents'',
                 JArr [JObj [(ascii ''parts'', JArr [JObj [(ascii ''text'', JStr (ascii '' hi ''))]])]])] \<rparr>]"
  using C8_one_request [of "ready_state (ascii ''k'') (ascii '' hi '')" example_engine
      1762000000000 "mock_endpoint (Rejected (ascii ''Failed to fetch''))" 1762000000500]
  by (simp add: example_defs)

text \<open>
  C9 does not hold of the code. Ids are clock readings (\<open>Date.now()\<close>, and
  \<open>Date.now() + 1\<close> for the message appended after the response), so two messages get
  the same id when two submissions without a credential read the same millisecond, and
  when a submission is made one millisecond after a response was handled. The ids are
  the React keys of the rendered list (line 174).
\<close>

theorem C9_duplicate_ids:
  "map msg_id (messages (comp (run example_engine
      [Type (ascii ''hi''), Render, Submit 1762000000000, Render, Submit 1762000000000]))) =
     [1, 1762000000000, 1762000000000] \<and>
   \<not> distinct (map msg_id (messages (comp (run example_engine
      [Type (ascii ''hi''), Render, Submit 1762000000000, Render, Submit 1762000000000])))) \<and>
   map msg_id (messages (comp (run example_engine
      [Mount (ascii ''k''), Type (ascii ''2+2?''), Render, Submit 1762000000000, Render,
       Settle 0 (Response 200 (Json (success_body (JStr (ascii ''4''))))) 1762000000500,
       Render, Type (ascii ''and 3+3?''), Render, Submit 1762000000501]))) =
     [1, 1762000000000, 1762000000501, 1762000000501]"
  by (simp add: run_defs greeting_def example_defs)

text \<open>
  C10. On the missing-credential path (input non-empty after trimming, \<open>loading\<close>
  false, no credential) the call leaves the input text, \<open>loading\<close>, the sidebar flag and
  the credential as they were.
\<close>

theorem C10_missing_credential_frame:
  assumes "trim (input s) \<noteq> []" and "\<not> loading s" and "apiKey s = []"
  shows "input (fst (handleSendMessage e s now1 net now2)) = input s \<and>
         loading (fst (handleSendMessage e s now1 net now2)) = loading s \<and>
         sidebarOpen (fst (handleSendMessage e s now1 net now2)) = sidebarOpen s \<and>
         apiKey (fst (handleSendMessage e s now1 net now2)) = apiKey s"
  using assms by (simp add: handleSendMessage_def send_begin_no_key)

theorem C10_witness:
  "input (fst (handleSendMessage example_engine (ready_state [] (ascii ''hi'')) 1762000000000
      (mock_endpoint (Rejected (ascii ''Failed to fetch''))) 1762000000500)) = ascii ''hi'' \<and>
   \<not> loading (fst (handleSendMessage example_engine (ready_state [] (ascii ''hi'')) 1762000000000
      (mock_endpoint (Rejected (ascii ''Failed to fetch''))) 1762000000500)) \<and>
   \<not> sidebarOpen (fst (handleSendMessage example_engine (ready_state [] (ascii ''hi''))
      1762000000000 (mock_endpoint (Rejected (ascii ''Failed to fetch''))) 1762000000500)) \<and>
   apiKey (fst (handleSendMessage example_engine (ready_state [] (ascii ''hi'')) 1762000000000
      (mock_endpoint (Rejected (ascii ''Failed to fetch''))) 1762000000500)) = []"
  using C10_missing_credential_frame [of "ready_state [] (ascii ''hi'')" example_engine
      1762000000000 "mock_endpoint (Rejected (ascii ''Failed to fetch''))" 1762000000500]
  by (simp add: example_defs)

end
